theory Spec2Isabelle
  imports Main
begin

section \<open>Values, documents and the two collections\<close>

text \<open>
  The resolvers of \<^verbatim>\<open>src/resolvers.ts\<close> work on JavaScript objects and on the documents
  of two MongoDB collections. Both are finite maps from field names to values. The values
  that occur are strings, ObjectIds, dates and \<^verbatim>\<open>null\<close>; a key that is absent reads as
  \<^verbatim>\<open>undefined\<close>. A JavaScript \<^verbatim>\<open>Date\<close> holds a time value in milliseconds or
  \<^verbatim>\<open>NaN\<close> (an invalid date): \<open>VDate None\<close> is the invalid date.
\<close>

type_synonym objectid = nat

datatype val = VStr string | VOid objectid | VDate "int option" | VNull

type_synonym doc = "string \<Rightarrow> val option"

text \<open>
  What a resolver throws: a \<^verbatim>\<open>GraphQLError\<close> with its message, or the \<^verbatim>\<open>BSONError\<close>
  of the \<^verbatim>\<open>ObjectId\<close> constructor.
\<close>

datatype error = GraphQLError string | BSONError

record Context =
  PacientesCollection :: "doc list"
  CitasCollection :: "doc list"

section \<open>The driver: ObjectId, BSON dates, collection primitives\<close>

text \<open>
  \<^verbatim>\<open>new ObjectId(s)\<close> on a string accepts exactly 24 hexadecimal digits, upper or lower
  case (the driver's \<^verbatim>\<open>/^[0-9a-fA-F]{24}$/\<close>), and throws a \<^verbatim>\<open>BSONError\<close> otherwise.
  An ObjectId is modelled by the number its 12 bytes spell.
\<close>

definition hex_val :: "char \<Rightarrow> nat option" where
  "hex_val c =
     (let n = (of_char c :: nat) in
      if 48 \<le> n \<and> n \<le> 57 then Some (n - 48)
      else if 97 \<le> n \<and> n \<le> 102 then Some (n - 87)
      else if 65 \<le> n \<and> n \<le> 70 then Some (n - 55)
      else None)"

fun fromHex :: "nat \<Rightarrow> string \<Rightarrow> nat option" where
  "fromHex acc [] = Some acc"
| "fromHex acc (c # cs) =
     (case hex_val c of None \<Rightarrow> None | Some h \<Rightarrow> fromHex (16 * acc + h) cs)"

definition ObjectId_fromString :: "string \<Rightarrow> objectid option" where
  "ObjectId_fromString s = (if length s = 24 then fromHex 0 s else None)"

text \<open>
  \<^verbatim>\<open>new ObjectId()\<close> and \<^verbatim>\<open>new ObjectId(undefined)\<close> generate a new identifier.
  The generator belongs to the driver, which makes its identifiers unique. Here it yields
  an identifier greater than the \<^verbatim>\<open>_id\<close> of every stored document, hence carried by
  none of them.
\<close>

definition oid_bound :: "doc \<Rightarrow> nat" where
  "oid_bound d = (case d ''_id'' of Some (VOid i) \<Rightarrow> Suc i | _ \<Rightarrow> 0)"

definition ObjectId_generate :: "Context \<Rightarrow> objectid" where
  "ObjectId_generate ctx =
     fold max (map oid_bound (PacientesCollection ctx @ CitasCollection ctx)) 0"

text \<open>
  The constructor over the values a resolver can hand it: \<^verbatim>\<open>undefined\<close> and
  \<^verbatim>\<open>null\<close> generate, an ObjectId is copied, a string is parsed, anything else is
  rejected.
\<close>

fun ObjectId_new :: "val option \<Rightarrow> Context \<Rightarrow> error + objectid" where
  "ObjectId_new None ctx = Inr (ObjectId_generate ctx)"
| "ObjectId_new (Some VNull) ctx = Inr (ObjectId_generate ctx)"
| "ObjectId_new (Some (VOid i)) ctx = Inr i"
| "ObjectId_new (Some (VStr s)) ctx =
     (case ObjectId_fromString s of None \<Rightarrow> Inl BSONError | Some i \<Rightarrow> Inr i)"
| "ObjectId_new (Some (VDate t)) ctx = Inl BSONError"

text \<open>
  BSON stores a date as a 64-bit count of milliseconds; the driver serialises the time
  value \<^verbatim>\<open>NaN\<close> of an invalid date as 0 and does not throw.
\<close>

fun bson_val :: "val \<Rightarrow> val" where
  "bson_val (VDate None) = VDate (Some 0)"
| "bson_val v = v"

definition bson :: "doc \<Rightarrow> doc" where
  "bson d = (\<lambda>k. map_option bson_val (d k))"

text \<open>A filter \<^verbatim>\<open>{k: v}\<close>: the document's field \<open>k\<close> equals the serialised \<open>v\<close>.\<close>

definition campo :: "string \<Rightarrow> val \<Rightarrow> doc \<Rightarrow> bool" where
  "campo k v d = (d k = Some (bson_val v))"

definition findOne :: "(doc \<Rightarrow> bool) \<Rightarrow> doc list \<Rightarrow> doc option" where
  "findOne p docs = find p docs"

text \<open>
  \<^verbatim>\<open>insertOne\<close> gives the document a generated \<^verbatim>\<open>_id\<close>, appends it and returns the
  \<^verbatim>\<open>insertedId\<close>.
\<close>

definition insertOne :: "Context \<Rightarrow> doc \<Rightarrow> doc list \<Rightarrow> objectid \<times> doc list" where
  "insertOne ctx d docs =
     (let insertedId = ObjectId_generate ctx
      in (insertedId, docs @ [(bson d)(''_id'' \<mapsto> VOid insertedId)]))"

text \<open>\<^verbatim>\<open>deleteOne\<close> removes the first document that matches and returns \<^verbatim>\<open>deletedCount\<close>.\<close>

fun deleteOne :: "(doc \<Rightarrow> bool) \<Rightarrow> doc list \<Rightarrow> nat \<times> doc list" where
  "deleteOne p [] = (0, [])"
| "deleteOne p (d # ds) =
     (if p d then (1, ds)
      else (case deleteOne p ds of (n, ds') \<Rightarrow> (n, d # ds')))"

text \<open>
  \<^verbatim>\<open>findOneAndUpdate(filter, {$set: upd}, {returnDocument: "after"})\<close>: the first
  document that matches gets every field of \<open>upd\<close> and is returned as updated;
  \<^verbatim>\<open>null\<close> when none matches. The call returns the document itself, as the resolver
  expects of it, and a \<^verbatim>\<open>$set\<close> without fields changes nothing.
\<close>

fun findOneAndUpdate :: "(doc \<Rightarrow> bool) \<Rightarrow> doc \<Rightarrow> doc list \<Rightarrow> doc option \<times> doc list" where
  "findOneAndUpdate p upd [] = (None, [])"
| "findOneAndUpdate p upd (d # ds) =
     (if p d then (Some (d ++ bson upd), (d ++ bson upd) # ds)
      else (case findOneAndUpdate p upd ds of (r, ds') \<Rightarrow> (r, d # ds')))"

section \<open>The resolvers\<close>

text \<open>
  Arguments the schema declares non-null (\<^verbatim>\<open>String!\<close>, \<^verbatim>\<open>ID!\<close>) reach the resolver as
  strings. A resolver returns what it returns or throws, and the collections after it.
\<close>

record args_addPatient =
  nombre :: string
  telefono :: string
  correo :: string

record args_addAppointment =
  paciente :: string
  fecha :: string
  tipo :: string

text \<open>\<^verbatim>\<open>Query.getPacient\<close> (lines 100-114).\<close>

definition getPacient :: "string \<Rightarrow> Context \<Rightarrow> error + doc" where
  "getPacient ident ctx =
     (case ObjectId_new (Some (VStr ident)) ctx of
        Inl e \<Rightarrow> Inl e
      | Inr oid \<Rightarrow>
          (case findOne (campo ''_id'' (VOid oid)) (PacientesCollection ctx) of
             None \<Rightarrow> Inl (GraphQLError ''Contact not found'')
           | Some result \<Rightarrow> Inr result))"

text \<open>\<^verbatim>\<open>Mutation.addPatient\<close> (lines 132-162).\<close>

definition addPatient :: "args_addPatient \<Rightarrow> Context \<Rightarrow> (error + doc) \<times> Context" where
  "addPatient args ctx =
     (case findOne (\<lambda>d. campo ''correo'' (VStr (correo args)) d
                       \<or> campo ''telefono'' (VStr (telefono args)) d)
             (PacientesCollection ctx) of
        Some paciente_existe \<Rightarrow> (Inl (GraphQLError ''ya existe el paciente''), ctx)
      | None \<Rightarrow>
          (case insertOne ctx
                  [''nombre'' \<mapsto> VStr (nombre args),
                   ''telefono'' \<mapsto> VStr (telefono args),
                   ''correo'' \<mapsto> VStr (correo args)]
                  (PacientesCollection ctx) of
             (insertedId, pacientes) \<Rightarrow>
               (Inr [''_id'' \<mapsto> VOid insertedId,
                     ''nombre'' \<mapsto> VStr (nombre args),
                     ''telefono'' \<mapsto> VStr (telefono args),
                     ''correo'' \<mapsto> VStr (correo args)],
                ctx\<lparr>PacientesCollection := pacientes\<rparr>)))"

text \<open>
  \<^verbatim>\<open>Mutation.addAppointment\<close> (lines 164-196). \<^verbatim>\<open>new Date(fecha)\<close> is the JavaScript
  engine's parser, a parameter here: it yields a time value, or \<open>None\<close> for a string it
  cannot parse, and never throws.
\<close>

definition addAppointment ::
  "(string \<Rightarrow> int option) \<Rightarrow> args_addAppointment \<Rightarrow> Context \<Rightarrow> (error + doc) \<times> Context" where
  "addAppointment Date_new args ctx =
     (case ObjectId_new (Some (VStr (paciente args))) ctx of
        Inl e \<Rightarrow> (Inl e, ctx)
      | Inr oid \<Rightarrow>
          (case findOne (\<lambda>d. campo ''paciente'' (VOid oid) d
                            \<and> campo ''fecha'' (VDate (Date_new (fecha args))) d)
                  (CitasCollection ctx) of
             Some cita_existe \<Rightarrow>
               (Inl (GraphQLError ''Ya existe una cita para este paciente en esa fecha''), ctx)
           | None \<Rightarrow>
               (case insertOne ctx
                       [''paciente'' \<mapsto> VOid oid,
                        ''fecha'' \<mapsto> VDate (Date_new (fecha args)),
                        ''tipo'' \<mapsto> VStr (tipo args)]
                       (CitasCollection ctx) of
                  (insertedId, citas) \<Rightarrow>
                    (Inr [''_id'' \<mapsto> VOid insertedId,
                          ''paciente'' \<mapsto> VOid oid,
                          ''fecha'' \<mapsto> VDate (Date_new (fecha args)),
                          ''tipo'' \<mapsto> VStr (tipo args)],
                     ctx\<lparr>CitasCollection := citas\<rparr>))))"

text \<open>\<^verbatim>\<open>Mutation.deleteAppointment\<close> (lines 198-210).\<close>

definition deleteAppointment :: "string \<Rightarrow> Context \<Rightarrow> (error + bool) \<times> Context" where
  "deleteAppointment ident ctx =
     (case ObjectId_new (Some (VStr ident)) ctx of
        Inl e \<Rightarrow> (Inl e, ctx)
      | Inr oid \<Rightarrow>
          (case deleteOne (campo ''_id'' (VOid oid)) (CitasCollection ctx) of
             (deletedCount, citas) \<Rightarrow>
               (Inr (if deletedCount = 0 then False else True),
                ctx\<lparr>CitasCollection := citas\<rparr>)))"

text \<open>
  \<^verbatim>\<open>Mutation.updatePatient\<close> (lines 213-250). Its arguments are optional, and the
  resolver spreads whatever keys the object has into \<^verbatim>\<open>$set\<close>, so the argument object is
  a map. \<^verbatim>\<open>if(telefono)\<close> is JavaScript truthiness. \<^verbatim>\<open>validar\<close> comes from
  \<^verbatim>\<open>utils.ts\<close>, which is not among the sources: it is a parameter.
\<close>

fun truthy :: "val option \<Rightarrow> bool" where
  "truthy None = False"
| "truthy (Some VNull) = False"
| "truthy (Some (VStr s)) = (s \<noteq> [])"
| "truthy (Some (VOid i)) = True"
| "truthy (Some (VDate t)) = True"

definition telefono_rechazado :: "(val \<Rightarrow> bool) \<Rightarrow> val option \<Rightarrow> bool" where
  "telefono_rechazado validar t =
     (truthy t \<and> (case t of None \<Rightarrow> False | Some v \<Rightarrow> \<not> validar v))"

text \<open>
  Line 236: \<^verbatim>\<open>const { _id: _id_unused, ...updateFields } = args\<close>, every key of the
  argument object but \<^verbatim>\<open>_id\<close>.
\<close>

definition updateFields :: "doc \<Rightarrow> doc" where
  "updateFields args = args |` (- {''_id''})"

definition updatePatient :: "(val \<Rightarrow> bool) \<Rightarrow> doc \<Rightarrow> Context \<Rightarrow> (error + doc) \<times> Context" where
  "updatePatient validar args ctx =
     (case ObjectId_new (args ''_id'') ctx of
        Inl e \<Rightarrow> (Inl e, ctx)
      | Inr oid \<Rightarrow>
          (case findOne (campo ''_id'' (VOid oid)) (PacientesCollection ctx) of
             None \<Rightarrow> (Inl (GraphQLError ''Paciente no encontrado''), ctx)
           | Some paciente_existe \<Rightarrow>
               if telefono_rechazado validar (args ''telefono'')
               then (Inl (GraphQLError ''telefono invalido''), ctx)
               else
                 (case ObjectId_new (args ''_id'') ctx of
                    Inl e \<Rightarrow> (Inl e, ctx)
                  | Inr oid' \<Rightarrow>
                      (case findOneAndUpdate (campo ''_id'' (VOid oid')) (updateFields args)
                              (PacientesCollection ctx) of
                         (None, pacientes) \<Rightarrow>
                           (Inl (GraphQLError ''Contact not found''),
                            ctx\<lparr>PacientesCollection := pacientes\<rparr>)
                       | (Some result, pacientes) \<Rightarrow>
                           (Inr result, ctx\<lparr>PacientesCollection := pacientes\<rparr>)))))"

text \<open>
  The argument object the dispatcher builds for
  \<^verbatim>\<open>updatePatient(id:ID!, nombre:String, telefono:String, correo:String)\<close> of the schema
  (line 281): the key \<^verbatim>\<open>id\<close> always, each optional argument under its own name when the
  request has it (a string or \<^verbatim>\<open>null\<close>).
\<close>

definition args_updatePatient ::
  "string \<Rightarrow> val option \<Rightarrow> val option \<Rightarrow> val option \<Rightarrow> doc" where
  "args_updatePatient ident n t c =
     (\<lambda>k. if k = ''id'' then Some (VStr ident)
          else if k = ''nombre'' then n
          else if k = ''telefono'' then t
          else if k = ''correo'' then c
          else None)"

section \<open>The invariant of the patient collection\<close>

text \<open>
  Every patient document carries a \<^verbatim>\<open>telefono\<close> that the validator accepts.
\<close>

definition telefonos_validos :: "(val \<Rightarrow> bool) \<Rightarrow> Context \<Rightarrow> bool" where
  "telefonos_validos validar ctx =
     list_all (\<lambda>d. case d ''telefono'' of None \<Rightarrow> False | Some v \<Rightarrow> validar v)
       (PacientesCollection ctx)"

section \<open>Example data\<close>

text \<open>
  The scenario of the specification: the patient Ana with phone \<^verbatim>\<open>555-1\<close>, and her
  check-up on 2024-05-01 (1714521600000 ms after the epoch, UTC). The example validator
  accepts a non-empty string of digits and \<^verbatim>\<open>+\<close>; the example date parser knows two
  days and parses nothing else.
\<close>

definition ana :: doc where
  "ana = [''_id'' \<mapsto> VOid 1, ''nombre'' \<mapsto> VStr ''Ana'',
          ''telefono'' \<mapsto> VStr ''555-1'', ''correo'' \<mapsto> VStr ''a@x.com'']"

definition cita_ana :: doc where
  "cita_ana = [''_id'' \<mapsto> VOid 2, ''paciente'' \<mapsto> VOid 1,
               ''fecha'' \<mapsto> VDate (Some 1714521600000), ''tipo'' \<mapsto> VStr ''checkup'']"

definition ctx_vacio :: Context where
  "ctx_vacio = \<lparr>PacientesCollection = [], CitasCollection = []\<rparr>"

definition ctx_ana :: Context where
  "ctx_ana = \<lparr>PacientesCollection = [ana], CitasCollection = []\<rparr>"

definition ctx_cita :: Context where
  "ctx_cita = \<lparr>PacientesCollection = [ana], CitasCollection = [cita_ana]\<rparr>"

definition Date_ejemplo :: "string \<Rightarrow> int option" where
  "Date_ejemplo s =
     (if s = ''2024-05-01'' then Some 1714521600000
      else if s = ''2024-05-02'' then Some 1714608000000
      else None)"

definition validar_ejemplo :: "val \<Rightarrow> bool" where
  "validar_ejemplo v =
     (case v of VStr s \<Rightarrow> s \<noteq> [] \<and> list_all (\<lambda>c. c \<in> set ''+0123456789'') s
      | _ \<Rightarrow> False)"

section \<open>The driver's primitives\<close>

lemma fold_max_ge: "(a::nat) \<le> fold max xs a"
  by (induction xs arbitrary: a) (auto intro: order_trans [OF max.cobounded2])

lemma fold_max_mem: "x \<in> set xs \<Longrightarrow> (x::nat) \<le> fold max xs a"
proof (induction xs arbitrary: a)
  case Nil
  then show ?case by simp
next
  case (Cons y ys)
  show ?case
  proof (cases "x = y")
    case True
    have "y \<le> max y a" by simp
    also have "\<dots> \<le> fold max ys (max y a)" by (rule fold_max_ge)
    finally show ?thesis using True by simp
  next
    case False
    with Cons.prems have "x \<in> set ys" by simp
    then show ?thesis using Cons.IH by simp
  qed
qed

text \<open>A generated identifier is the \<^verbatim>\<open>_id\<close> of no stored document.\<close>

lemma generate_fresh:
  assumes "d \<in> set (PacientesCollection ctx) \<union> set (CitasCollection ctx)"
  shows "d ''_id'' \<noteq> Some (VOid (ObjectId_generate ctx))"
proof
  assume eq: "d ''_id'' = Some (VOid (ObjectId_generate ctx))"
  from assms
  have "oid_bound d \<in> set (map oid_bound (PacientesCollection ctx @ CitasCollection ctx))"
    by auto
  then have "oid_bound d \<le> ObjectId_generate ctx"
    unfolding ObjectId_generate_def by (rule fold_max_mem)
  moreover have "oid_bound d = Suc (ObjectId_generate ctx)"
    using eq by (simp add: oid_bound_def)
  ultimately show False by simp
qed

lemma bson_upd [simp]:
  "bson (m(k \<mapsto> v)) = (bson m)(k \<mapsto> bson_val v)"
  "bson Map.empty = Map.empty"
  by (auto simp: bson_def)

lemma campo_VOid [simp]: "campo k (VOid i) d \<longleftrightarrow> d k = Some (VOid i)"
  and campo_VStr [simp]: "campo k (VStr s) d \<longleftrightarrow> d k = Some (VStr s)"
  by (simp_all add: campo_def)

lemma findOne_None: "findOne p docs = None \<longleftrightarrow> (\<forall>d\<in>set docs. \<not> p d)"
  by (auto simp: findOne_def find_None_iff)

lemma findOne_Some_ex: "(\<exists>d. findOne p docs = Some d) \<longleftrightarrow> (\<exists>d\<in>set docs. p d)"
  using findOne_None [of p docs] by (cases "findOne p docs") auto

lemma findOne_SomeD: "findOne p docs = Some d \<Longrightarrow> d \<in> set docs \<and> p d"
  by (auto simp: findOne_def find_Some_iff)

text \<open>
  \<^verbatim>\<open>findOneAndUpdate\<close> rewrites the document \<^verbatim>\<open>findOne\<close> would return, in place, and
  nothing else.
\<close>

lemma findOneAndUpdate_split:
  "findOne p ds = Some d \<Longrightarrow>
   \<exists>pre post. ds = pre @ d # post \<and> (\<forall>x\<in>set pre. \<not> p x)
     \<and> findOneAndUpdate p upd ds = (Some (d ++ bson upd), pre @ (d ++ bson upd) # post)"
proof (induction ds)
  case Nil
  then show ?case by (simp add: findOne_def)
next
  case (Cons x xs)
  show ?case
  proof (cases "p x")
    case True
    with Cons.prems have "x = d" by (simp add: findOne_def)
    with True have "x # xs = [] @ d # xs \<and> (\<forall>y\<in>set []. \<not> p y)
        \<and> findOneAndUpdate p upd (x # xs) = (Some (d ++ bson upd), [] @ (d ++ bson upd) # xs)"
      by simp
    then show ?thesis by blast
  next
    case False
    with Cons.prems have "findOne p xs = Some d" by (simp add: findOne_def)
    from Cons.IH [OF this] obtain pre post where
      "xs = pre @ d # post" "\<forall>y\<in>set pre. \<not> p y"
      "findOneAndUpdate p upd xs = (Some (d ++ bson upd), pre @ (d ++ bson upd) # post)"
      by blast
    with False have "x # xs = (x # pre) @ d # post \<and> (\<forall>y\<in>set (x # pre). \<not> p y)
        \<and> findOneAndUpdate p upd (x # xs)
            = (Some (d ++ bson upd), (x # pre) @ (d ++ bson upd) # post)"
      by simp
    then show ?thesis by blast
  qed
qed

lemma findOneAndUpdate_miss:
  "\<forall>d\<in>set ds. \<not> p d \<Longrightarrow> findOneAndUpdate p upd ds = (None, ds)"
  by (induction ds) auto

lemma deleteOne_miss:
  "\<forall>d\<in>set ds. \<not> p d \<Longrightarrow> deleteOne p ds = (0, ds)"
  by (induction ds) auto

lemma deleteOne_hit:
  "\<exists>d\<in>set ds. p d \<Longrightarrow>
   \<exists>pre d post. ds = pre @ d # post \<and> p d \<and> (\<forall>x\<in>set pre. \<not> p x)
      \<and> deleteOne p ds = (1, pre @ post)"
proof (induction ds)
  case Nil
  then show ?case by simp
next
  case (Cons x xs)
  show ?case
  proof (cases "p x")
    case True
    then have "x # xs = [] @ x # xs \<and> p x \<and> (\<forall>y\<in>set []. \<not> p y)
       \<and> deleteOne p (x # xs) = (1, [] @ xs)" by simp
    then show ?thesis by blast
  next
    case False
    with Cons.prems have "\<exists>d\<in>set xs. p d" by auto
    from Cons.IH [OF this] obtain pre d post where
      "xs = pre @ d # post" "p d" "\<forall>y\<in>set pre. \<not> p y" "deleteOne p xs = (1, pre @ post)"
      by blast
    with False have "x # xs = (x # pre) @ d # post \<and> p d \<and> (\<forall>y\<in>set (x # pre). \<not> p y)
       \<and> deleteOne p (x # xs) = (1, (x # pre) @ post)" by simp
    then show ?thesis by blast
  qed
qed

lemma ObjectId_ejemplos [simp]:
  "ObjectId_fromString ''000000000000000000000001'' = Some 1"
  "ObjectId_fromString ''000000000000000000000002'' = Some 2"
  "ObjectId_fromString ''P1'' = None"
  by (simp_all add: ObjectId_fromString_def hex_val_def)

section \<open>addPatient\<close>

text \<open>
  C1. The thrown \<^verbatim>\<open>GraphQLError("ya existe el paciente")\<close> is the Conflict of the
  specification. When some stored patient has the phone or the email of the input,
  \<open>addPatient\<close> throws it and the collections are as before. Otherwise it appends exactly
  one document to the patient collection and returns it: its \<^verbatim>\<open>_id\<close> is the generated
  identifier, which no stored patient carries, and its name, phone and email are the input's.
\<close>

theorem addPatient_conflict_or_insert:
  "(let nuevo = [''_id'' \<mapsto> VOid (ObjectId_generate ctx),
                 ''nombre'' \<mapsto> VStr (nombre args),
                 ''telefono'' \<mapsto> VStr (telefono args),
                 ''correo'' \<mapsto> VStr (correo args)]
    in ((\<exists>d\<in>set (PacientesCollection ctx).
            d ''telefono'' = Some (VStr (telefono args))
            \<or> d ''correo'' = Some (VStr (correo args)))
          \<longrightarrow> addPatient args ctx = (Inl (GraphQLError ''ya existe el paciente''), ctx))
     \<and> (\<not> (\<exists>d\<in>set (PacientesCollection ctx).
            d ''telefono'' = Some (VStr (telefono args))
            \<or> d ''correo'' = Some (VStr (correo args)))
          \<longrightarrow> addPatient args ctx =
                (Inr nuevo, ctx\<lparr>PacientesCollection := PacientesCollection ctx @ [nuevo]\<rparr>)
              \<and> (\<forall>d\<in>set (PacientesCollection ctx). d ''_id'' \<noteq> nuevo ''_id'')))"
proof -
  let ?p = "\<lambda>d. campo ''correo'' (VStr (correo args)) d
                \<or> campo ''telefono'' (VStr (telefono args)) d"
  let ?dup = "\<exists>d\<in>set (PacientesCollection ctx).
            d ''telefono'' = Some (VStr (telefono args))
            \<or> d ''correo'' = Some (VStr (correo args))"
  let ?nuevo = "[''_id'' \<mapsto> VOid (ObjectId_generate ctx),
                 ''nombre'' \<mapsto> VStr (nombre args),
                 ''telefono'' \<mapsto> VStr (telefono args),
                 ''correo'' \<mapsto> VStr (correo args)]"
  have dup: "?dup \<longleftrightarrow> (\<exists>d\<in>set (PacientesCollection ctx). ?p d)"
    by auto
  have A: "addPatient args ctx = (Inl (GraphQLError ''ya existe el paciente''), ctx)" if ?dup
  proof -
    from that dup obtain d where "findOne ?p (PacientesCollection ctx) = Some d"
      using findOne_Some_ex [of ?p "PacientesCollection ctx"] by blast
    then show ?thesis by (simp add: addPatient_def)
  qed
  have B: "addPatient args ctx =
      (Inr ?nuevo, ctx\<lparr>PacientesCollection := PacientesCollection ctx @ [?nuevo]\<rparr>)"
    if "\<not> ?dup"
  proof -
    from that dup have "findOne ?p (PacientesCollection ctx) = None"
      by (simp add: findOne_None)
    moreover have "[''nombre'' \<mapsto> VStr (nombre args), ''telefono'' \<mapsto> VStr (telefono args),
        ''correo'' \<mapsto> VStr (correo args), ''_id'' \<mapsto> VOid (ObjectId_generate ctx)] = ?nuevo"
      by (rule ext) simp
    ultimately show ?thesis by (simp add: addPatient_def insertOne_def Let_def)
  qed
  have C: "\<forall>d\<in>set (PacientesCollection ctx). d ''_id'' \<noteq> ?nuevo ''_id''"
    using generate_fresh [of _ ctx] by simp
  show ?thesis unfolding Let_def
  proof (intro conjI impI)
    assume ?dup
    then show "addPatient args ctx = (Inl (GraphQLError ''ya existe el paciente''), ctx)"
      by (rule A)
  next
    assume "\<not> ?dup"
    then show "addPatient args ctx =
      (Inr ?nuevo, ctx\<lparr>PacientesCollection := PacientesCollection ctx @ [?nuevo]\<rparr>)"
      by (rule B)
  next
    show "\<forall>d\<in>set (PacientesCollection ctx). d ''_id'' \<noteq> ?nuevo ''_id''"
      by (rule C)
  qed
qed

text \<open>
  With Ana stored: her phone with another email is refused, and a new phone with a new
  email is stored under the identifier 2.
\<close>

theorem addPatient_conflict_or_insert_witness:
  "addPatient \<lparr>nombre = ''Luis'', telefono = ''555-1'', correo = ''l@x.com''\<rparr> ctx_ana
     = (Inl (GraphQLError ''ya existe el paciente''), ctx_ana)
   \<and> addPatient \<lparr>nombre = ''Luis'', telefono = ''555-2'', correo = ''l@x.com''\<rparr> ctx_ana
     = (Inr [''_id'' \<mapsto> VOid 2, ''nombre'' \<mapsto> VStr ''Luis'',
             ''telefono'' \<mapsto> VStr ''555-2'', ''correo'' \<mapsto> VStr ''l@x.com''],
        \<lparr>PacientesCollection =
           [ana, [''_id'' \<mapsto> VOid 2, ''nombre'' \<mapsto> VStr ''Luis'',
                  ''telefono'' \<mapsto> VStr ''555-2'', ''correo'' \<mapsto> VStr ''l@x.com'']],
         CitasCollection = []\<rparr>)"
  using addPatient_conflict_or_insert
          [where ctx = ctx_ana
             and args = "\<lparr>nombre = ''Luis'', telefono = ''555-1'', correo = ''l@x.com''\<rparr>"]
        addPatient_conflict_or_insert
          [where ctx = ctx_ana
             and args = "\<lparr>nombre = ''Luis'', telefono = ''555-2'', correo = ''l@x.com''\<rparr>"]
  by (simp add: ctx_ana_def ana_def ObjectId_generate_def oid_bound_def Let_def numeral_2_eq_2)

section \<open>addAppointment\<close>

text \<open>
  The two outcomes of \<open>addAppointment\<close> for a well-formed patient reference. The
  appointment returned carries the JavaScript date; the document stored carries its BSON
  form.
\<close>

lemma addAppointment_cases:
  assumes oid: "ObjectId_fromString (paciente args) = Some oid"
  shows "(\<exists>d\<in>set (CitasCollection ctx).
            d ''paciente'' = Some (VOid oid)
            \<and> d ''fecha'' = Some (bson_val (VDate (Date_new (fecha args)))))
         \<Longrightarrow> addAppointment Date_new args ctx =
              (Inl (GraphQLError ''Ya existe una cita para este paciente en esa fecha''), ctx)"
    and "\<not> (\<exists>d\<in>set (CitasCollection ctx).
            d ''paciente'' = Some (VOid oid)
            \<and> d ''fecha'' = Some (bson_val (VDate (Date_new (fecha args)))))
         \<Longrightarrow> addAppointment Date_new args ctx =
              (Inr [''_id'' \<mapsto> VOid (ObjectId_generate ctx),
                    ''paciente'' \<mapsto> VOid oid,
                    ''fecha'' \<mapsto> VDate (Date_new (fecha args)),
                    ''tipo'' \<mapsto> VStr (tipo args)],
               ctx\<lparr>CitasCollection := CitasCollection ctx @
                    [[''_id'' \<mapsto> VOid (ObjectId_generate ctx),
                      ''paciente'' \<mapsto> VOid oid,
                      ''fecha'' \<mapsto> bson_val (VDate (Date_new (fecha args))),
                      ''tipo'' \<mapsto> VStr (tipo args)]]\<rparr>)"
proof -
  let ?p = "\<lambda>d. campo ''paciente'' (VOid oid) d
                \<and> campo ''fecha'' (VDate (Date_new (fecha args))) d"
  let ?dup = "\<exists>d\<in>set (CitasCollection ctx).
            d ''paciente'' = Some (VOid oid)
            \<and> d ''fecha'' = Some (bson_val (VDate (Date_new (fecha args))))"
  have dup: "?dup \<longleftrightarrow> (\<exists>d\<in>set (CitasCollection ctx). ?p d)"
    by (simp add: campo_def)
  {
    assume ?dup
    with dup obtain d where "findOne ?p (CitasCollection ctx) = Some d"
      using findOne_Some_ex [of ?p "CitasCollection ctx"] by blast
    then show "addAppointment Date_new args ctx =
              (Inl (GraphQLError ''Ya existe una cita para este paciente en esa fecha''), ctx)"
      using oid by (simp add: addAppointment_def)
  next
    assume "\<not> ?dup"
    with dup have none: "findOne ?p (CitasCollection ctx) = None"
      by (simp add: findOne_None)
    have twist: "[''paciente'' \<mapsto> VOid oid, ''fecha'' \<mapsto> v, ''tipo'' \<mapsto> VStr (tipo args),
                  ''_id'' \<mapsto> VOid i]
               = [''_id'' \<mapsto> VOid i, ''paciente'' \<mapsto> VOid oid, ''fecha'' \<mapsto> v,
                  ''tipo'' \<mapsto> VStr (tipo args)]" for v i
      by (rule ext) simp
    show "addAppointment Date_new args ctx =
              (Inr [''_id'' \<mapsto> VOid (ObjectId_generate ctx),
                    ''paciente'' \<mapsto> VOid oid,
                    ''fecha'' \<mapsto> VDate (Date_new (fecha args)),
                    ''tipo'' \<mapsto> VStr (tipo args)],
               ctx\<lparr>CitasCollection := CitasCollection ctx @
                    [[''_id'' \<mapsto> VOid (ObjectId_generate ctx),
                      ''paciente'' \<mapsto> VOid oid,
                      ''fecha'' \<mapsto> bson_val (VDate (Date_new (fecha args))),
                      ''tipo'' \<mapsto> VStr (tipo args)]]\<rparr>)"
      using oid none by (simp add: addAppointment_def insertOne_def Let_def twist)
  }
qed

text \<open>
  C2. The thrown \<^verbatim>\<open>GraphQLError("Ya existe una cita para este paciente en esa fecha")\<close>
  is the Conflict of the specification. For a well-formed patient reference: when an
  appointment of that patient with the same date is stored, whatever its type,
  \<open>addAppointment\<close> throws it and the collections are as before; when every stored
  appointment of that patient has another date, it appends exactly one document and returns
  the appointment with the generated identifier, which no stored appointment carries. Dates
  are compared as the store holds them.
\<close>

theorem addAppointment_same_date_conflict:
  "ObjectId_fromString (paciente args) = Some oid \<Longrightarrow>
   (let f = bson_val (VDate (Date_new (fecha args)));
        nueva = [''_id'' \<mapsto> VOid (ObjectId_generate ctx),
                 ''paciente'' \<mapsto> VOid oid,
                 ''fecha'' \<mapsto> VDate (Date_new (fecha args)),
                 ''tipo'' \<mapsto> VStr (tipo args)]
    in ((\<exists>d\<in>set (CitasCollection ctx).
            d ''paciente'' = Some (VOid oid) \<and> d ''fecha'' = Some f)
          \<longrightarrow> addAppointment Date_new args ctx =
                (Inl (GraphQLError ''Ya existe una cita para este paciente en esa fecha''), ctx))
     \<and> ((\<forall>d\<in>set (CitasCollection ctx).
            d ''paciente'' = Some (VOid oid) \<longrightarrow> d ''fecha'' \<noteq> Some f)
          \<longrightarrow> addAppointment Date_new args ctx =
                (Inr nueva,
                 ctx\<lparr>CitasCollection := CitasCollection ctx @
                      [[''_id'' \<mapsto> VOid (ObjectId_generate ctx),
                        ''paciente'' \<mapsto> VOid oid,
                        ''fecha'' \<mapsto> f,
                        ''tipo'' \<mapsto> VStr (tipo args)]]\<rparr>)
              \<and> (\<forall>d\<in>set (CitasCollection ctx). d ''_id'' \<noteq> nueva ''_id'')))"
proof -
  assume oid: "ObjectId_fromString (paciente args) = Some oid"
  let ?f = "bson_val (VDate (Date_new (fecha args)))"
  let ?nueva = "[''_id'' \<mapsto> VOid (ObjectId_generate ctx),
                 ''paciente'' \<mapsto> VOid oid,
                 ''fecha'' \<mapsto> VDate (Date_new (fecha args)),
                 ''tipo'' \<mapsto> VStr (tipo args)]"
  have fresh: "\<forall>d\<in>set (CitasCollection ctx). d ''_id'' \<noteq> ?nueva ''_id''"
    using generate_fresh [of _ ctx] by simp
  show ?thesis unfolding Let_def
  proof (intro conjI impI)
    assume "\<exists>d\<in>set (CitasCollection ctx).
            d ''paciente'' = Some (VOid oid) \<and> d ''fecha'' = Some ?f"
    then show "addAppointment Date_new args ctx =
                (Inl (GraphQLError ''Ya existe una cita para este paciente en esa fecha''), ctx)"
      by (rule addAppointment_cases(1)
                 [where Date_new = Date_new and args = args and oid = oid and ctx = ctx, OF oid])
  next
    assume "\<forall>d\<in>set (CitasCollection ctx).
            d ''paciente'' = Some (VOid oid) \<longrightarrow> d ''fecha'' \<noteq> Some ?f"
    then have "\<not> (\<exists>d\<in>set (CitasCollection ctx).
            d ''paciente'' = Some (VOid oid) \<and> d ''fecha'' = Some ?f)"
      by blast
    then show "addAppointment Date_new args ctx =
                (Inr ?nueva,
                 ctx\<lparr>CitasCollection := CitasCollection ctx @
                      [[''_id'' \<mapsto> VOid (ObjectId_generate ctx),
                        ''paciente'' \<mapsto> VOid oid,
                        ''fecha'' \<mapsto> ?f,
                        ''tipo'' \<mapsto> VStr (tipo args)]]\<rparr>)"
      by (rule addAppointment_cases(2)
                 [where Date_new = Date_new and args = args and oid = oid and ctx = ctx, OF oid])
  next
    show "\<forall>d\<in>set (CitasCollection ctx). d ''_id'' \<noteq> ?nueva ''_id''"
      by (rule fresh)
  qed
qed

text \<open>
  With Ana's check-up of 2024-05-01 stored: the same day with another type is refused, the
  next day is stored under the identifier 3.
\<close>

theorem addAppointment_same_date_conflict_witness:
  "addAppointment Date_ejemplo
     \<lparr>paciente = ''000000000000000000000001'', fecha = ''2024-05-01'', tipo = ''revision''\<rparr>
     ctx_cita
     = (Inl (GraphQLError ''Ya existe una cita para este paciente en esa fecha''), ctx_cita)
   \<and> addAppointment Date_ejemplo
     \<lparr>paciente = ''000000000000000000000001'', fecha = ''2024-05-02'', tipo = ''checkup''\<rparr>
     ctx_cita
     = (Inr [''_id'' \<mapsto> VOid 3, ''paciente'' \<mapsto> VOid 1,
             ''fecha'' \<mapsto> VDate (Some 1714608000000), ''tipo'' \<mapsto> VStr ''checkup''],
        \<lparr>PacientesCollection = [ana],
         CitasCollection =
           [cita_ana,
            [''_id'' \<mapsto> VOid 3, ''paciente'' \<mapsto> VOid 1,
             ''fecha'' \<mapsto> VDate (Some 1714608000000), ''tipo'' \<mapsto> VStr ''checkup'']]\<rparr>)"
  using addAppointment_same_date_conflict
          [where oid = 1 and ctx = ctx_cita and Date_new = Date_ejemplo
             and args = "\<lparr>paciente = ''000000000000000000000001'', fecha = ''2024-05-01'',
                          tipo = ''revision''\<rparr>"]
        addAppointment_same_date_conflict
          [where oid = 1 and ctx = ctx_cita and Date_new = Date_ejemplo
             and args = "\<lparr>paciente = ''000000000000000000000001'', fecha = ''2024-05-02'',
                          tipo = ''checkup''\<rparr>"]
  by (simp add: ctx_cita_def ana_def cita_ana_def Date_ejemplo_def ObjectId_generate_def
        oid_bound_def Let_def eval_nat_numeral)

text \<open>
  C6, as the code has it. \<^verbatim>\<open>new Date(fecha)\<close> does not throw on a string it cannot
  parse, and the resolver does not look at the result: the invalid date goes to the store,
  which holds it as the date 0. So for a date string that does not parse and a well-formed
  patient reference, \<open>addAppointment\<close> throws the Conflict error, inserting nothing, when
  that patient has an appointment stored with the date 0, and otherwise appends exactly one
  document and returns the appointment, its date invalid.
\<close>

theorem addAppointment_unparseable_date:
  "Date_new (fecha args) = None \<Longrightarrow> ObjectId_fromString (paciente args) = Some oid \<Longrightarrow>
   ((\<exists>d\<in>set (CitasCollection ctx).
        d ''paciente'' = Some (VOid oid) \<and> d ''fecha'' = Some (VDate (Some 0)))
      \<longrightarrow> addAppointment Date_new args ctx =
            (Inl (GraphQLError ''Ya existe una cita para este paciente en esa fecha''), ctx))
   \<and> (\<not> (\<exists>d\<in>set (CitasCollection ctx).
        d ''paciente'' = Some (VOid oid) \<and> d ''fecha'' = Some (VDate (Some 0)))
      \<longrightarrow> addAppointment Date_new args ctx =
            (Inr [''_id'' \<mapsto> VOid (ObjectId_generate ctx),
                  ''paciente'' \<mapsto> VOid oid,
                  ''fecha'' \<mapsto> VDate None,
                  ''tipo'' \<mapsto> VStr (tipo args)],
             ctx\<lparr>CitasCollection := CitasCollection ctx @
                  [[''_id'' \<mapsto> VOid (ObjectId_generate ctx),
                    ''paciente'' \<mapsto> VOid oid,
                    ''fecha'' \<mapsto> VDate (Some 0),
                    ''tipo'' \<mapsto> VStr (tipo args)]]\<rparr>))"
  using addAppointment_cases [where args = args and oid = oid and ctx = ctx
                                and Date_new = Date_new]
  by simp

text \<open>
  The string \<^verbatim>\<open>manana\<close> does not parse. On the store with Ana's check-up the call
  succeeds and stores an appointment under the identifier 3 with the date 0.
\<close>

theorem addAppointment_unparseable_date_witness:
  "Date_ejemplo ''manana'' = None
   \<and> addAppointment Date_ejemplo
     \<lparr>paciente = ''000000000000000000000001'', fecha = ''manana'', tipo = ''checkup''\<rparr>
     ctx_cita
     = (Inr [''_id'' \<mapsto> VOid 3, ''paciente'' \<mapsto> VOid 1,
             ''fecha'' \<mapsto> VDate None, ''tipo'' \<mapsto> VStr ''checkup''],
        \<lparr>PacientesCollection = [ana],
         CitasCollection =
           [cita_ana,
            [''_id'' \<mapsto> VOid 3, ''paciente'' \<mapsto> VOid 1,
             ''fecha'' \<mapsto> VDate (Some 0), ''tipo'' \<mapsto> VStr ''checkup'']]\<rparr>)"
  using addAppointment_unparseable_date
          [where oid = 1 and ctx = ctx_cita and Date_new = Date_ejemplo
             and args = "\<lparr>paciente = ''000000000000000000000001'', fecha = ''manana'',
                          tipo = ''checkup''\<rparr>"]
  by (simp add: ctx_cita_def ana_def cita_ana_def Date_ejemplo_def ObjectId_generate_def
        oid_bound_def Let_def eval_nat_numeral)

text \<open>
  Against C6 as stated: on the empty store the call with the unparseable date does not
  throw, and one appointment document is in the collection afterwards.
\<close>

theorem addAppointment_unparseable_date_counterexample:
  "Date_ejemplo ''manana'' = None
   \<and> addAppointment Date_ejemplo
     \<lparr>paciente = ''000000000000000000000001'', fecha = ''manana'', tipo = ''checkup''\<rparr>
     ctx_vacio
     = (Inr [''_id'' \<mapsto> VOid 0, ''paciente'' \<mapsto> VOid 1,
             ''fecha'' \<mapsto> VDate None, ''tipo'' \<mapsto> VStr ''checkup''],
        \<lparr>PacientesCollection = [],
         CitasCollection =
           [[''_id'' \<mapsto> VOid 0, ''paciente'' \<mapsto> VOid 1,
             ''fecha'' \<mapsto> VDate (Some 0), ''tipo'' \<mapsto> VStr ''checkup'']]\<rparr>)"
  using addAppointment_cases(2)
          [where oid = 1 and ctx = ctx_vacio and Date_new = Date_ejemplo
             and args = "\<lparr>paciente = ''000000000000000000000001'', fecha = ''manana'',
                          tipo = ''checkup''\<rparr>"]
  by (simp add: ctx_vacio_def Date_ejemplo_def ObjectId_generate_def)

section \<open>deleteAppointment\<close>

text \<open>
  C7. For a well-formed identifier \<open>deleteAppointment\<close> never throws. When a stored
  appointment carries the identifier it returns \<^verbatim>\<open>true\<close> and exactly one such document
  is gone; when none does it returns \<^verbatim>\<open>false\<close> and the collections are as before.
  Identifiers being unique in the collection, as the store keeps them, a second call with the
  same identifier returns \<^verbatim>\<open>false\<close>.
\<close>

theorem deleteAppointment_true_iff_removed:
  "ObjectId_fromString ident = Some oid \<Longrightarrow>
   ((\<exists>d\<in>set (CitasCollection ctx). d ''_id'' = Some (VOid oid))
      \<longrightarrow> (\<exists>pre d post. CitasCollection ctx = pre @ d # post
              \<and> d ''_id'' = Some (VOid oid)
              \<and> deleteAppointment ident ctx
                  = (Inr True, ctx\<lparr>CitasCollection := pre @ post\<rparr>)))
   \<and> (\<not> (\<exists>d\<in>set (CitasCollection ctx). d ''_id'' = Some (VOid oid))
      \<longrightarrow> deleteAppointment ident ctx = (Inr False, ctx))
   \<and> (distinct (map (\<lambda>d. d ''_id'') (CitasCollection ctx))
      \<longrightarrow> fst (deleteAppointment ident (snd (deleteAppointment ident ctx))) = Inr False)"
proof -
  assume oid: "ObjectId_fromString ident = Some oid"
  let ?p = "campo ''_id'' (VOid oid)"
  let ?hit = "\<exists>d\<in>set (CitasCollection ctx). d ''_id'' = Some (VOid oid)"
  have miss: "deleteAppointment ident c = (Inr False, c)"
    if "\<forall>d\<in>set (CitasCollection c). d ''_id'' \<noteq> Some (VOid oid)" for c
  proof -
    from that have "deleteOne ?p (CitasCollection c) = (0, CitasCollection c)"
      by (intro deleteOne_miss) simp
    then show ?thesis using oid by (simp add: deleteAppointment_def)
  qed
  have hit: "\<exists>pre d post. CitasCollection ctx = pre @ d # post
              \<and> d ''_id'' = Some (VOid oid)
              \<and> deleteAppointment ident ctx
                  = (Inr True, ctx\<lparr>CitasCollection := pre @ post\<rparr>)" if ?hit
  proof -
    from that have "\<exists>d\<in>set (CitasCollection ctx). ?p d" by simp
    from deleteOne_hit [OF this] obtain pre d post where
      split: "CitasCollection ctx = pre @ d # post" and d: "?p d"
      and del: "deleteOne ?p (CitasCollection ctx) = (1, pre @ post)"
      by blast
    from del oid have "deleteAppointment ident ctx
        = (Inr True, ctx\<lparr>CitasCollection := pre @ post\<rparr>)"
      by (simp add: deleteAppointment_def)
    with split d show ?thesis by auto
  qed
  have again: "fst (deleteAppointment ident (snd (deleteAppointment ident ctx))) = Inr False"
    if dist: "distinct (map (\<lambda>d. d ''_id'') (CitasCollection ctx))"
  proof (cases ?hit)
    case True
    from hit [OF True] obtain pre d post where
      split: "CitasCollection ctx = pre @ d # post" and d: "d ''_id'' = Some (VOid oid)"
      and del: "deleteAppointment ident ctx = (Inr True, ctx\<lparr>CitasCollection := pre @ post\<rparr>)"
      by blast
    from dist split
    have notin: "d ''_id'' \<notin> (\<lambda>d. d ''_id'') ` (set pre \<union> set post)"
      by auto
    have "\<forall>x\<in>set (pre @ post). x ''_id'' \<noteq> Some (VOid oid)"
    proof
      fix x
      assume "x \<in> set (pre @ post)"
      then have "x ''_id'' \<in> (\<lambda>d. d ''_id'') ` (set pre \<union> set post)"
        by auto
      with notin have "x ''_id'' \<noteq> d ''_id''"
        by metis
      with d show "x ''_id'' \<noteq> Some (VOid oid)"
        by simp
    qed
    then have "\<forall>x\<in>set (CitasCollection (ctx\<lparr>CitasCollection := pre @ post\<rparr>)).
        x ''_id'' \<noteq> Some (VOid oid)"
      by simp
    from miss [OF this] del show ?thesis by simp
  next
    case False
    then have none: "\<forall>d\<in>set (CitasCollection ctx). d ''_id'' \<noteq> Some (VOid oid)"
      by blast
    from miss [OF none] show ?thesis by simp
  qed
  show ?thesis
  proof (intro conjI impI)
    assume ?hit
    then show "\<exists>pre d post. CitasCollection ctx = pre @ d # post
              \<and> d ''_id'' = Some (VOid oid)
              \<and> deleteAppointment ident ctx
                  = (Inr True, ctx\<lparr>CitasCollection := pre @ post\<rparr>)"
      by (rule hit)
  next
    assume "\<not> ?hit"
    then have "\<forall>d\<in>set (CitasCollection ctx). d ''_id'' \<noteq> Some (VOid oid)"
      by blast
    then show "deleteAppointment ident ctx = (Inr False, ctx)"
      by (rule miss)
  next
    assume "distinct (map (\<lambda>d. d ''_id'') (CitasCollection ctx))"
    then show "fst (deleteAppointment ident (snd (deleteAppointment ident ctx))) = Inr False"
      by (rule again)
  qed
qed

text \<open>
  The scenario of the specification: deleting Ana's check-up returns \<^verbatim>\<open>true\<close> and leaves
  no appointment, deleting it again returns \<^verbatim>\<open>false\<close>.
\<close>

theorem deleteAppointment_true_iff_removed_witness:
  "deleteAppointment ''000000000000000000000002'' ctx_cita = (Inr True, ctx_ana)
   \<and> deleteAppointment ''000000000000000000000002'' ctx_ana = (Inr False, ctx_ana)
   \<and> fst (deleteAppointment ''000000000000000000000002''
            (snd (deleteAppointment ''000000000000000000000002'' ctx_cita))) = Inr False"
  using deleteAppointment_true_iff_removed
          [where ident = "''000000000000000000000002''" and oid = 2 and ctx = ctx_cita]
        deleteAppointment_true_iff_removed
          [where ident = "''000000000000000000000002''" and oid = 2 and ctx = ctx_ana]
  by (simp add: deleteAppointment_def ctx_cita_def ctx_ana_def cita_ana_def ana_def)

section \<open>updatePatient\<close>

text \<open>
  The three ways through the resolver, for an argument object of any shape. The resolver
  declares its parameter as a \<^verbatim>\<open>Paciente\<close> and reads the identifier from its key
  \<^verbatim>\<open>_id\<close>.
\<close>

lemma updatePatient_no_encontrado:
  assumes "ObjectId_new (args ''_id'') ctx = Inr oid"
    and "\<forall>d\<in>set (PacientesCollection ctx). d ''_id'' \<noteq> Some (VOid oid)"
  shows "updatePatient validar args ctx = (Inl (GraphQLError ''Paciente no encontrado''), ctx)"
proof -
  from assms(2) have "findOne (campo ''_id'' (VOid oid)) (PacientesCollection ctx) = None"
    by (simp add: findOne_None)
  with assms(1) show ?thesis by (simp add: updatePatient_def)
qed

lemma updatePatient_rechazado:
  assumes "ObjectId_new (args ''_id'') ctx = Inr oid"
    and "findOne (campo ''_id'' (VOid oid)) (PacientesCollection ctx) = Some d"
    and "telefono_rechazado validar (args ''telefono'')"
  shows "updatePatient validar args ctx = (Inl (GraphQLError ''telefono invalido''), ctx)"
  using assms by (simp add: updatePatient_def)

lemma updatePatient_actualizado:
  assumes "ObjectId_new (args ''_id'') ctx = Inr oid"
    and "findOne (campo ''_id'' (VOid oid)) (PacientesCollection ctx) = Some d"
    and "\<not> telefono_rechazado validar (args ''telefono'')"
  shows "\<exists>pre post. PacientesCollection ctx = pre @ d # post
           \<and> (\<forall>x\<in>set pre. x ''_id'' \<noteq> Some (VOid oid))
           \<and> updatePatient validar args ctx =
               (Inr (d ++ bson (updateFields args)),
                ctx\<lparr>PacientesCollection := pre @ (d ++ bson (updateFields args)) # post\<rparr>)"
proof -
  from findOneAndUpdate_split [OF assms(2), of "updateFields args"]
  obtain pre post where split: "PacientesCollection ctx = pre @ d # post"
    and pre: "\<forall>x\<in>set pre. \<not> campo ''_id'' (VOid oid) x"
    and upd: "findOneAndUpdate (campo ''_id'' (VOid oid)) (updateFields args)
                (PacientesCollection ctx)
              = (Some (d ++ bson (updateFields args)),
                 pre @ (d ++ bson (updateFields args)) # post)"
    by blast
  from assms upd have "updatePatient validar args ctx =
      (Inr (d ++ bson (updateFields args)),
       ctx\<lparr>PacientesCollection := pre @ (d ++ bson (updateFields args)) # post\<rparr>)"
    by (simp add: updatePatient_def)
  with split pre show ?thesis by auto
qed

text \<open>
  Through the schema the identifier arrives under the key \<^verbatim>\<open>id\<close>. The resolver reads
  \<^verbatim>\<open>_id\<close>, finds it \<^verbatim>\<open>undefined\<close>, and looks a generated identifier up: no call made
  through the schema gets past the existence check.
\<close>

lemma updatePatient_por_esquema:
  "updatePatient validar (args_updatePatient ident n t c) ctx
     = (Inl (GraphQLError ''Paciente no encontrado''), ctx)"
proof -
  have "args_updatePatient ident n t c ''_id'' = None"
    by (simp add: args_updatePatient_def)
  then have "ObjectId_new (args_updatePatient ident n t c ''_id'') ctx
      = Inr (ObjectId_generate ctx)"
    by simp
  moreover have "\<forall>d\<in>set (PacientesCollection ctx).
      d ''_id'' \<noteq> Some (VOid (ObjectId_generate ctx))"
    using generate_fresh [of _ ctx] by simp
  ultimately show ?thesis by (rule updatePatient_no_encontrado)
qed

text \<open>
  A string that is not a well-formed identifier makes the \<^verbatim>\<open>ObjectId\<close> constructor throw
  in \<open>getPacient\<close>, \<open>deleteAppointment\<close> and \<open>addAppointment\<close>, and in \<open>updatePatient\<close>
  when it stands under the key \<^verbatim>\<open>_id\<close>; nothing is written.
\<close>

lemma identificador_mal_formado:
  assumes "ObjectId_fromString s = None"
  shows "getPacient s ctx = Inl BSONError"
    and "deleteAppointment s ctx = (Inl BSONError, ctx)"
    and "paciente a = s \<Longrightarrow> addAppointment Date_new a ctx = (Inl BSONError, ctx)"
    and "args ''_id'' = Some (VStr s) \<Longrightarrow> updatePatient validar args ctx = (Inl BSONError, ctx)"
  using assms
  by (simp_all add: getPacient_def deleteAppointment_def addAppointment_def updatePatient_def)

text \<open>
  C3 at the input where the code departs from it. Ana is stored under the identifier
  \<^verbatim>\<open>000000000000000000000001\<close>. For the call
  \<^verbatim>\<open>updatePatient(id: "000000000000000000000001", nombre: "Ana Lopez")\<close> made through the
  schema, the payload the resolver builds for \<^verbatim>\<open>$set\<close> holds the identifier under the
  key \<^verbatim>\<open>id\<close> beside the name, since only \<^verbatim>\<open>_id\<close> is taken out; and no merge
  happens: the call throws \<^verbatim>\<open>GraphQLError("Paciente no encontrado")\<close> and Ana's document
  is as before.
\<close>

theorem updatePatient_supplied_name_not_merged:
  "getPacient ''000000000000000000000001'' ctx_ana = Inr ana
   \<and> updateFields
       (args_updatePatient ''000000000000000000000001'' (Some (VStr ''Ana Lopez'')) None None)
       ''id'' = Some (VStr ''000000000000000000000001'')
   \<and> updateFields
       (args_updatePatient ''000000000000000000000001'' (Some (VStr ''Ana Lopez'')) None None)
       ''nombre'' = Some (VStr ''Ana Lopez'')
   \<and> updatePatient validar_ejemplo
       (args_updatePatient ''000000000000000000000001'' (Some (VStr ''Ana Lopez'')) None None)
       ctx_ana
       = (Inl (GraphQLError ''Paciente no encontrado''), ctx_ana)"
proof -
  have "updateFields
       (args_updatePatient ''000000000000000000000001'' (Some (VStr ''Ana Lopez'')) None None)
       ''id'' = Some (VStr ''000000000000000000000001'')"
    and "updateFields
       (args_updatePatient ''000000000000000000000001'' (Some (VStr ''Ana Lopez'')) None None)
       ''nombre'' = Some (VStr ''Ana Lopez'')"
    by (simp_all add: updateFields_def args_updatePatient_def)
  moreover have "getPacient ''000000000000000000000001'' ctx_ana = Inr ana"
    by (simp add: getPacient_def findOne_def ctx_ana_def ana_def)
  ultimately show ?thesis
    by (simp add: updatePatient_por_esquema)
qed

text \<open>
  C4 at the input where the code departs from it. The example validator rejects the phone
  \<^verbatim>\<open>abc\<close>. The call \<^verbatim>\<open>updatePatient(id: "000000000000000000000001", telefono: "abc")\<close>
  made through the schema, on the store where Ana has that identifier, does not throw
  \<^verbatim>\<open>GraphQLError("telefono invalido")\<close>: it throws
  \<^verbatim>\<open>GraphQLError("Paciente no encontrado")\<close> before the phone is looked at.
\<close>

theorem updatePatient_rejected_phone_not_reported:
  "\<not> validar_ejemplo (VStr ''abc'')
   \<and> getPacient ''000000000000000000000001'' ctx_ana = Inr ana
   \<and> updatePatient validar_ejemplo
       (args_updatePatient ''000000000000000000000001'' None (Some (VStr ''abc'')) None)
       ctx_ana
       = (Inl (GraphQLError ''Paciente no encontrado''), ctx_ana)"
  by (simp add: getPacient_def findOne_def updatePatient_por_esquema validar_ejemplo_def
        ctx_ana_def ana_def)

text \<open>
  C10. The existence check comes first. When the identifier the resolver reads names no
  stored patient, \<open>updatePatient\<close> throws \<^verbatim>\<open>GraphQLError("Paciente no encontrado")\<close>, the
  NotFound of the specification, under every validator and whatever the phone supplied: the
  validator has no part in the outcome. The collections are as before.
\<close>

theorem updatePatient_existence_before_validation:
  "ObjectId_new (args ''_id'') ctx = Inr oid \<Longrightarrow>
   \<forall>d\<in>set (PacientesCollection ctx). d ''_id'' \<noteq> Some (VOid oid) \<Longrightarrow>
   \<forall>validar. updatePatient validar args ctx
     = (Inl (GraphQLError ''Paciente no encontrado''), ctx)"
  using updatePatient_no_encontrado [where args = args and ctx = ctx and oid = oid]
  by blast

text \<open>
  No patient has the identifier 7, and the example validator rejects \<^verbatim>\<open>abc\<close>: the call
  reports the missing patient, not the phone.
\<close>

theorem updatePatient_existence_before_validation_witness:
  "\<not> validar_ejemplo (VStr ''abc'')
   \<and> updatePatient validar_ejemplo
       [''_id'' \<mapsto> VOid 7, ''telefono'' \<mapsto> VStr ''abc''] ctx_ana
       = (Inl (GraphQLError ''Paciente no encontrado''), ctx_ana)"
  using updatePatient_existence_before_validation
          [where args = "[''_id'' \<mapsto> VOid 7,
                          ''telefono'' \<mapsto> VStr ''abc'']"
             and ctx = ctx_ana and oid = 7]
  by (simp add: validar_ejemplo_def ctx_ana_def ana_def)

text \<open>
  C5 at the input where the code departs from it. Ana is stored under the identifier
  \<^verbatim>\<open>000000000000000000000001\<close>, as \<open>getPacient\<close> shows. The call
  \<^verbatim>\<open>updatePatient(id: "000000000000000000000001", nombre: "Ana Maria")\<close> made through the
  schema throws \<^verbatim>\<open>GraphQLError("Paciente no encontrado")\<close> and changes nothing.
\<close>

theorem updatePatient_existing_id_not_found:
  "getPacient ''000000000000000000000001'' ctx_ana = Inr ana
   \<and> updatePatient validar_ejemplo
       (args_updatePatient ''000000000000000000000001'' (Some (VStr ''Ana Maria'')) None None)
       ctx_ana
       = (Inl (GraphQLError ''Paciente no encontrado''), ctx_ana)"
  by (simp add: getPacient_def findOne_def updatePatient_por_esquema ctx_ana_def ana_def)

text \<open>
  C8 at the input where the code departs from it. \<^verbatim>\<open>P1\<close> is not a well-formed
  identifier. \<open>getPacient\<close> and \<open>deleteAppointment\<close> fail on it in the \<^verbatim>\<open>ObjectId\<close>
  constructor; \<^verbatim>\<open>updatePatient(id: "P1")\<close> made through the schema never hands it to the
  constructor and reports a missing patient instead.
\<close>

theorem updatePatient_malformed_id_not_rejected:
  "ObjectId_fromString ''P1'' = None
   \<and> getPacient ''P1'' ctx_ana = Inl BSONError
   \<and> deleteAppointment ''P1'' ctx_ana = (Inl BSONError, ctx_ana)
   \<and> updatePatient validar_ejemplo (args_updatePatient ''P1'' None None None) ctx_ana
       = (Inl (GraphQLError ''Paciente no encontrado''), ctx_ana)"
  by (simp add: identificador_mal_formado updatePatient_por_esquema)

text \<open>
  C9 at the input where the code departs from it. \<open>addPatient\<close> never calls the validator.
  The empty store satisfies the invariant; after adding Ana with the phone \<^verbatim>\<open>555-1\<close>,
  which the example validator rejects, it does not.
\<close>

theorem addPatient_stores_unvalidated_phone:
  "telefonos_validos validar_ejemplo ctx_vacio
   \<and> \<not> validar_ejemplo (VStr ''555-1'')
   \<and> addPatient \<lparr>nombre = ''Ana'', telefono = ''555-1'', correo = ''a@x.com''\<rparr> ctx_vacio
       = (Inr [''_id'' \<mapsto> VOid 0, ''nombre'' \<mapsto> VStr ''Ana'',
               ''telefono'' \<mapsto> VStr ''555-1'', ''correo'' \<mapsto> VStr ''a@x.com''],
          \<lparr>PacientesCollection =
             [[''_id'' \<mapsto> VOid 0, ''nombre'' \<mapsto> VStr ''Ana'',
               ''telefono'' \<mapsto> VStr ''555-1'', ''correo'' \<mapsto> VStr ''a@x.com'']],
           CitasCollection = []\<rparr>)
   \<and> \<not> telefonos_validos validar_ejemplo
         (snd (addPatient \<lparr>nombre = ''Ana'', telefono = ''555-1'', correo = ''a@x.com''\<rparr>
                 ctx_vacio))"
proof -
  have twist: "[''nombre'' \<mapsto> VStr ''Ana'', ''telefono'' \<mapsto> VStr ''555-1'',
                ''correo'' \<mapsto> VStr ''a@x.com'', ''_id'' \<mapsto> VOid 0]
             = [''_id'' \<mapsto> VOid 0, ''nombre'' \<mapsto> VStr ''Ana'',
                ''telefono'' \<mapsto> VStr ''555-1'', ''correo'' \<mapsto> VStr ''a@x.com'']"
    by (rule ext) simp
  show ?thesis
    by (simp add: addPatient_def findOne_def insertOne_def telefonos_validos_def
          validar_ejemplo_def ctx_vacio_def ObjectId_generate_def Let_def twist)
qed

end
